theory Spec2Isabelle
  imports Main
begin

section \<open>CTimer: timespec arithmetic and the stopwatch of \<open>ctimer.h\<close>\<close>

text \<open>
  The header works on POSIX \<open>struct timespec\<close> values, whose two fields \<open>tv_sec\<close>
  (a \<open>time_t\<close>) and \<open>tv_nsec\<close> (a \<open>long\<close>) are signed C integers. Signed overflow is
  undefined in C, and whenever no operation overflows the C result is the mathematical
  one. The fields are therefore modelled as \<open>int\<close>: every statement below is about
  executions in which no signed overflow occurs.
\<close>

subsection \<open>Unit conversion constants\<close>

text \<open>The enum constants \<open>_MSEC_PER_SEC\<close>, \<open>_USEC_PER_SEC\<close> and \<open>_NSEC_PER_SEC\<close>.\<close>

definition MSEC_PER_SEC :: int where
  "MSEC_PER_SEC = 1000"

definition USEC_PER_SEC :: int where
  "USEC_PER_SEC = 1000 * 1000"

definition NSEC_PER_SEC :: int where
  "NSEC_PER_SEC = 1000 * 1000 * 1000"

text \<open>C's integer division \<open>/\<close> truncates towards zero, unlike \<open>div\<close> on \<open>int\<close>.\<close>

definition c_div :: "int \<Rightarrow> int \<Rightarrow> int" where
  "c_div a b = sgn a * sgn b * (\<bar>a\<bar> div \<bar>b\<bar>)"

subsection \<open>Data\<close>

text \<open>\<open>timespec_t\<close>, an alias of \<open>struct timespec\<close>.\<close>

record timespec =
  tv_sec :: int
  tv_nsec :: int

text \<open>\<open>ctimer_t\<close>: start time, end time and elapsed time of a stopwatch.\<close>

record ctimer_t =
  tic :: timespec
  toc :: timespec
  elapsed :: timespec

text \<open>A timestamp is normalized when its nanosecond field lies in \<open>[0, 10^9)\<close>.\<close>

definition normalized :: "timespec \<Rightarrow> bool" where
  "normalized t \<longleftrightarrow> 0 \<le> tv_nsec t \<and> tv_nsec t < NSEC_PER_SEC"

subsection \<open>Timespec API\<close>

text \<open>
  \<open>timespec_sub (td, t1, t2)\<close> stores \<open>t2 - t1\<close> in \<open>*td\<close>. Both operands are passed
  by value, so the output cannot alias them; the model returns the value written
  to \<open>*td\<close>. The two tests read the fields just assigned.
\<close>

definition timespec_sub :: "timespec \<Rightarrow> timespec \<Rightarrow> timespec" where
  "timespec_sub t1 t2 =
     (let td = \<lparr>tv_sec = tv_sec t2 - tv_sec t1, tv_nsec = tv_nsec t2 - tv_nsec t1\<rparr>
      in if tv_sec td > 0 \<and> tv_nsec td < 0
         then \<lparr>tv_sec = tv_sec td - 1, tv_nsec = tv_nsec td + NSEC_PER_SEC\<rparr>
         else if tv_sec td < 0 \<and> tv_nsec td > 0
         then \<lparr>tv_sec = tv_sec td + 1, tv_nsec = tv_nsec td - NSEC_PER_SEC\<rparr>
         else td)"

text \<open>
  \<open>timespec_add (t1, t2)\<close> accumulates \<open>t2\<close> into \<open>*t1\<close>; the model returns the new
  value of \<open>*t1\<close>.
\<close>

definition timespec_add :: "timespec \<Rightarrow> timespec \<Rightarrow> timespec" where
  "timespec_add t1 t2 =
     (let t = \<lparr>tv_sec = tv_sec t1 + tv_sec t2, tv_nsec = tv_nsec t1 + tv_nsec t2\<rparr>
      in if tv_nsec t \<ge> NSEC_PER_SEC
         then \<lparr>tv_sec = tv_sec t + 1, tv_nsec = tv_nsec t - NSEC_PER_SEC\<rparr>
         else t)"

definition timespec_msec :: "timespec \<Rightarrow> int" where
  "timespec_msec t = tv_sec t * MSEC_PER_SEC + c_div (tv_nsec t) USEC_PER_SEC"

definition timespec_usec :: "timespec \<Rightarrow> int" where
  "timespec_usec t = tv_sec t * USEC_PER_SEC + c_div (tv_nsec t) MSEC_PER_SEC"

definition timespec_nsec :: "timespec \<Rightarrow> int" where
  "timespec_nsec t = tv_sec t * NSEC_PER_SEC + tv_nsec t"

subsection \<open>Stopwatch API\<close>

text \<open>The functions that do not read the clock update the stopwatch in place.\<close>

definition ctimer_measure :: "ctimer_t \<Rightarrow> ctimer_t" where
  "ctimer_measure t = t\<lparr>elapsed := timespec_sub (tic t) (toc t)\<rparr>"

definition ctimer_lap :: "ctimer_t \<Rightarrow> ctimer_t" where
  "ctimer_lap t =
     (let lap_buf = timespec_sub (tic t) (toc t)
      in t\<lparr>elapsed := timespec_add (elapsed t) lap_buf\<rparr>)"

definition ctimer_reset :: "ctimer_t \<Rightarrow> ctimer_t" where
  "ctimer_reset t = t\<lparr>elapsed := \<lparr>tv_sec = 0, tv_nsec = 0\<rparr>\<rparr>"

text \<open>
  The monotonic clock is an input: a trace \<open>clk\<close> whose \<open>k\<close>-th entry is the sample
  that the \<open>k\<close>-th call of \<open>clock_gettime (CLOCK_MONOTONIC, _)\<close> stores. The state of a
  program that reads the clock is the stopwatch together with the number of reads
  made so far.
\<close>

type_synonym clock = "nat \<Rightarrow> timespec"

definition clock_gettime :: "clock \<Rightarrow> nat \<Rightarrow> timespec \<times> nat" where
  "clock_gettime clk k = (clk k, Suc k)"

definition ctimer_start :: "clock \<Rightarrow> ctimer_t \<times> nat \<Rightarrow> ctimer_t \<times> nat" where
  "ctimer_start clk s =
     (case s of (t, k) \<Rightarrow>
        (case clock_gettime clk k of (now, k') \<Rightarrow> (t\<lparr>tic := now\<rparr>, k')))"

text \<open>
  \<open>ctimer_stop\<close> is compiled in one of two ways; the flag says whether the
  preprocessor macro \<open>CTIMER_MEASURE_ON_STOP\<close> is defined.
\<close>

definition ctimer_stop :: "bool \<Rightarrow> clock \<Rightarrow> ctimer_t \<times> nat \<Rightarrow> ctimer_t \<times> nat" where
  "ctimer_stop measure_on_stop clk s =
     (case s of (t, k) \<Rightarrow>
        (case clock_gettime clk k of (now, k') \<Rightarrow>
           (let t' = t\<lparr>toc := now\<rparr>
            in (if measure_on_stop then ctimer_measure t' else t', k'))))"

text \<open>
  The timed loop of \<open>ctimer_example.c\<close>: each iteration starts the stopwatch, stops it
  after the work, and accumulates the lap. \<open>ctimer_laps m clk n\<close> runs \<open>n\<close> iterations.
\<close>

definition lap_iteration :: "bool \<Rightarrow> clock \<Rightarrow> ctimer_t \<times> nat \<Rightarrow> ctimer_t \<times> nat" where
  "lap_iteration measure_on_stop clk s =
     (case ctimer_stop measure_on_stop clk (ctimer_start clk s) of
        (t, k) \<Rightarrow> (ctimer_lap t, k))"

fun ctimer_laps :: "bool \<Rightarrow> clock \<Rightarrow> nat \<Rightarrow> ctimer_t \<times> nat \<Rightarrow> ctimer_t \<times> nat" where
  "ctimer_laps measure_on_stop clk 0 s = s"
| "ctimer_laps measure_on_stop clk (Suc n) s =
     lap_iteration measure_on_stop clk (ctimer_laps measure_on_stop clk n s)"

text \<open>
  A concrete run, used to exercise the statements below: a clock whose samples
  alternate between \<open>0.9 s\<close> and \<open>0.1 s\<close> past consecutive whole seconds, so that every
  start-to-stop interval is \<open>0.2 s\<close> long and needs a borrow, and a stopwatch whose
  fields hold arbitrary earlier values.
\<close>

definition sample_clock :: clock where
  "sample_clock i =
     \<lparr>tv_sec = 10 + int i, tv_nsec = (if even i then 900000000 else 100000000)\<rparr>"

definition sample_timer :: ctimer_t where
  "sample_timer =
     \<lparr>tic = \<lparr>tv_sec = 3, tv_nsec = 1\<rparr>, toc = \<lparr>tv_sec = 2, tv_nsec = 5\<rparr>,
      elapsed = \<lparr>tv_sec = 7, tv_nsec = 42\<rparr>\<rparr>"

section \<open>Properties\<close>

subsection \<open>Total nanoseconds of differences and sums\<close>

lemma NSEC_PER_SEC_eq: "NSEC_PER_SEC = 1000000000"
  by (simp add: NSEC_PER_SEC_def)

text \<open>
  Both branches of \<open>timespec_sub\<close> and of \<open>timespec_add\<close> move exactly one second
  between the two fields, so the total number of nanoseconds does not depend on the
  branch taken.
\<close>

lemma timespec_nsec_sub:
  "timespec_nsec (timespec_sub a b) = timespec_nsec b - timespec_nsec a"
  by (simp add: timespec_sub_def timespec_nsec_def Let_def algebra_simps)

lemma timespec_nsec_add:
  "timespec_nsec (timespec_add a b) = timespec_nsec a + timespec_nsec b"
  by (simp add: timespec_add_def timespec_nsec_def Let_def algebra_simps)

lemma timespec_sub_sec_nonneg:
  assumes "normalized a" and "normalized b" and "timespec_nsec a \<le> timespec_nsec b"
  shows "0 \<le> tv_sec (timespec_sub a b)"
proof -
  have raw: "0 \<le> tv_sec b - tv_sec a"
    using assms by (simp add: normalized_def timespec_nsec_def NSEC_PER_SEC_eq)
  then show ?thesis
    by (simp add: timespec_sub_def Let_def)
qed

text \<open>
  Claim C1. For normalized timestamps \<open>a\<close> and \<open>b\<close> with \<open>b\<close> chronologically after
  \<open>a\<close> (the total nanoseconds of \<open>b\<close> are at least those of \<open>a\<close>), the difference
  \<open>timespec_sub a b\<close> has a non-negative seconds field, and its total nanoseconds are
  exactly those of \<open>b\<close> minus those of \<open>a\<close>.
\<close>

theorem timespec_sub_chronological:
  assumes "normalized a" and "normalized b" and "timespec_nsec a \<le> timespec_nsec b"
  shows "0 \<le> tv_sec (timespec_sub a b) \<and>
         timespec_nsec (timespec_sub a b) = timespec_nsec b - timespec_nsec a"
  using assms by (simp add: timespec_sub_sec_nonneg timespec_nsec_sub)

theorem timespec_sub_chronological_witness:
  "normalized \<lparr>tv_sec = 5, tv_nsec = 100\<rparr> \<and> normalized \<lparr>tv_sec = 6, tv_nsec = 50\<rparr> \<and>
   timespec_nsec \<lparr>tv_sec = 5, tv_nsec = 100\<rparr> \<le> timespec_nsec \<lparr>tv_sec = 6, tv_nsec = 50\<rparr> \<and>
   0 \<le> tv_sec (timespec_sub \<lparr>tv_sec = 5, tv_nsec = 100\<rparr> \<lparr>tv_sec = 6, tv_nsec = 50\<rparr>) \<and>
   timespec_nsec (timespec_sub \<lparr>tv_sec = 5, tv_nsec = 100\<rparr> \<lparr>tv_sec = 6, tv_nsec = 50\<rparr>)
     = 999999950"
proof -
  have n1: "normalized \<lparr>tv_sec = 5, tv_nsec = 100\<rparr>"
    and n2: "normalized \<lparr>tv_sec = 6, tv_nsec = 50\<rparr>"
    by (simp_all add: normalized_def NSEC_PER_SEC_eq)
  have le: "timespec_nsec \<lparr>tv_sec = 5, tv_nsec = 100\<rparr>
      \<le> timespec_nsec \<lparr>tv_sec = 6, tv_nsec = 50\<rparr>"
    by (simp add: timespec_nsec_def NSEC_PER_SEC_eq)
  from timespec_sub_chronological [OF n1 n2 le] n1 n2 le show ?thesis
    by (simp add: timespec_nsec_def NSEC_PER_SEC_eq)
qed

text \<open>
  Claim C3. For all timestamps \<open>a\<close> and \<open>b\<close>, \<open>timespec_add a b\<close> preserves the total
  nanoseconds: they are the sum of those of \<open>a\<close> and of \<open>b\<close>. In particular the sum is
  commutative in total nanoseconds.
\<close>

theorem timespec_add_total:
  "timespec_nsec (timespec_add a b) = timespec_nsec a + timespec_nsec b \<and>
   timespec_nsec (timespec_add a b) = timespec_nsec (timespec_add b a)"
  by (simp add: timespec_nsec_add)

text \<open>
  Claim C7. The difference is antisymmetric in total nanoseconds: swapping the
  operands of \<open>timespec_sub\<close> negates the total. This holds for all timestamps, so for
  the normalized ones in particular.
\<close>

theorem timespec_sub_antisym:
  "timespec_nsec (timespec_sub a b) = - timespec_nsec (timespec_sub b a)"
  by (simp add: timespec_nsec_sub)

subsection \<open>Carry and borrow\<close>

text \<open>
  Claim C5. When both operands are normalized, the single conditional carry of
  \<open>timespec_add\<close> is enough: the nanosecond field of the result is again in
  \<open>[0, 10^9)\<close>. At the boundary, where the raw nanosecond sum is exactly \<open>10^9\<close>, the
  carry is taken and the field becomes \<open>0\<close>.
\<close>

theorem timespec_add_normalized:
  "normalized t1 \<and> normalized t2 \<longrightarrow>
     normalized (timespec_add t1 t2) \<and>
     (tv_nsec t1 + tv_nsec t2 = NSEC_PER_SEC \<longrightarrow> tv_nsec (timespec_add t1 t2) = 0)"
  by (simp add: normalized_def timespec_add_def Let_def NSEC_PER_SEC_eq)

theorem timespec_add_normalized_witness:
  "normalized \<lparr>tv_sec = 1, tv_nsec = 400000000\<rparr> \<and>
   normalized \<lparr>tv_sec = 2, tv_nsec = 600000000\<rparr> \<and>
   normalized (timespec_add \<lparr>tv_sec = 1, tv_nsec = 400000000\<rparr>
     \<lparr>tv_sec = 2, tv_nsec = 600000000\<rparr>) \<and>
   timespec_add \<lparr>tv_sec = 1, tv_nsec = 400000000\<rparr> \<lparr>tv_sec = 2, tv_nsec = 600000000\<rparr>
     = \<lparr>tv_sec = 4, tv_nsec = 0\<rparr>"
  using timespec_add_normalized
    [of "\<lparr>tv_sec = 1, tv_nsec = 400000000\<rparr>" "\<lparr>tv_sec = 2, tv_nsec = 600000000\<rparr>"]
  by (simp add: normalized_def timespec_add_def NSEC_PER_SEC_eq)

text \<open>
  Whole seconds. \<open>c_div\<close> by a positive divisor returns the quotient \<open>q\<close> of any
  decomposition \<open>q * b + r\<close> whose remainder has the sign of \<open>q\<close> and is smaller than
  \<open>b\<close> in magnitude; the difference of two normalized timestamps is such a
  decomposition of the difference of their totals.
\<close>

lemma c_div_whole_pos:
  assumes "0 < b" and "0 \<le> q" and "0 \<le> r" and "r < b"
  shows "c_div (q * b + r) b = q"
proof -
  have quot: "(q * b + r) div b = q"
    using assms by simp
  have nonneg: "0 \<le> q * b + r"
    using assms by simp
  show ?thesis
  proof (cases "q * b + r = 0")
    case True
    with quot have "q = 0" by simp
    with True show ?thesis by (simp add: c_div_def)
  next
    case False
    with nonneg have "0 < q * b + r" by simp
    with assms(1) quot show ?thesis by (simp add: c_div_def)
  qed
qed

lemma c_div_minus: "c_div (- a) b = - c_div a b"
  by (simp add: c_div_def)

lemma c_div_whole_neg:
  assumes "0 < b" and "q \<le> 0" and "r \<le> 0" and "- b < r"
  shows "c_div (q * b + r) b = q"
proof -
  have flip: "q * b + r = - ((- q) * b + (- r))"
    by simp
  have "c_div ((- q) * b + (- r)) b = - q"
    using assms by (intro c_div_whole_pos) simp_all
  then have "c_div (- ((- q) * b + (- r))) b = q"
    by (simp only: c_div_minus minus_minus)
  then show ?thesis
    by (simp only: flip [symmetric])
qed

lemma timespec_sub_signs:
  assumes "normalized a" and "normalized b"
  shows "(0 \<le> tv_sec (timespec_sub a b) \<and> 0 \<le> tv_nsec (timespec_sub a b) \<and>
            tv_nsec (timespec_sub a b) < NSEC_PER_SEC) \<or>
         (tv_sec (timespec_sub a b) \<le> 0 \<and> tv_nsec (timespec_sub a b) \<le> 0 \<and>
            - NSEC_PER_SEC < tv_nsec (timespec_sub a b))"
  using assms by (auto simp add: normalized_def timespec_sub_def Let_def NSEC_PER_SEC_eq)

lemma timespec_sub_whole_seconds:
  assumes "normalized a" and "normalized b"
  shows "tv_sec (timespec_sub a b) = c_div (timespec_nsec b - timespec_nsec a) NSEC_PER_SEC"
proof -
  let ?d = "timespec_sub a b"
  have pos: "0 < NSEC_PER_SEC" by (simp add: NSEC_PER_SEC_eq)
  have total: "timespec_nsec b - timespec_nsec a = tv_sec ?d * NSEC_PER_SEC + tv_nsec ?d"
    using timespec_nsec_sub [of a b] by (simp add: timespec_nsec_def)
  from timespec_sub_signs [OF assms] show ?thesis
  proof
    assume "0 \<le> tv_sec ?d \<and> 0 \<le> tv_nsec ?d \<and> tv_nsec ?d < NSEC_PER_SEC"
    then show ?thesis
      unfolding total using pos by (simp add: c_div_whole_pos)
  next
    assume "tv_sec ?d \<le> 0 \<and> tv_nsec ?d \<le> 0 \<and> - NSEC_PER_SEC < tv_nsec ?d"
    then show ?thesis
      unfolding total using pos by (simp add: c_div_whole_neg)
  qed
qed

lemma timespec_sub_larger_nsec:
  assumes "tv_nsec t2 < tv_nsec t1"
  shows "timespec_sub t1 t2 =
           (if tv_sec t1 < tv_sec t2
            then \<lparr>tv_sec = tv_sec t2 - tv_sec t1 - 1,
                  tv_nsec = tv_nsec t2 - tv_nsec t1 + NSEC_PER_SEC\<rparr>
            else \<lparr>tv_sec = tv_sec t2 - tv_sec t1, tv_nsec = tv_nsec t2 - tv_nsec t1\<rparr>)"
  using assms by (simp add: timespec_sub_def Let_def)

text \<open>
  Claim C6. Borrow correctness of the difference. Subtracting a timestamp \<open>t1\<close> with
  the larger nanosecond field from a timestamp \<open>t2\<close> with the smaller one borrows a
  second exactly when \<open>t2\<close> has the larger seconds field; otherwise there is no whole
  second to borrow and the result is the difference of the fields, a duration that
  is not positive. For normalized timestamps the seconds field of the result is, in
  every case, the whole-seconds part of the true difference (truncated towards zero),
  never one more. Concretely, the difference from \<open>{5 s, 100 ns}\<close> to \<open>{6 s, 50 ns}\<close>
  is exactly \<open>{0 s, 999999950 ns}\<close>, and not \<open>{1 s, -50 ns}\<close>.
\<close>

theorem timespec_sub_borrow:
  "(tv_nsec t2 < tv_nsec t1 \<longrightarrow>
      timespec_sub t1 t2 =
        (if tv_sec t1 < tv_sec t2
         then \<lparr>tv_sec = tv_sec t2 - tv_sec t1 - 1,
               tv_nsec = tv_nsec t2 - tv_nsec t1 + NSEC_PER_SEC\<rparr>
         else \<lparr>tv_sec = tv_sec t2 - tv_sec t1, tv_nsec = tv_nsec t2 - tv_nsec t1\<rparr>)) \<and>
   (normalized t1 \<and> normalized t2 \<longrightarrow>
      tv_sec (timespec_sub t1 t2) =
        c_div (timespec_nsec t2 - timespec_nsec t1) NSEC_PER_SEC) \<and>
   timespec_sub \<lparr>tv_sec = 5, tv_nsec = 100\<rparr> \<lparr>tv_sec = 6, tv_nsec = 50\<rparr>
     = \<lparr>tv_sec = 0, tv_nsec = 999999950\<rparr> \<and>
   timespec_sub \<lparr>tv_sec = 5, tv_nsec = 100\<rparr> \<lparr>tv_sec = 6, tv_nsec = 50\<rparr>
     \<noteq> \<lparr>tv_sec = 1, tv_nsec = - 50\<rparr>"
proof (intro conjI impI)
  assume "tv_nsec t2 < tv_nsec t1"
  then show "timespec_sub t1 t2 =
      (if tv_sec t1 < tv_sec t2
       then \<lparr>tv_sec = tv_sec t2 - tv_sec t1 - 1,
             tv_nsec = tv_nsec t2 - tv_nsec t1 + NSEC_PER_SEC\<rparr>
       else \<lparr>tv_sec = tv_sec t2 - tv_sec t1, tv_nsec = tv_nsec t2 - tv_nsec t1\<rparr>)"
    by (rule timespec_sub_larger_nsec)
next
  assume "normalized t1 \<and> normalized t2"
  then show "tv_sec (timespec_sub t1 t2) =
      c_div (timespec_nsec t2 - timespec_nsec t1) NSEC_PER_SEC"
    by (simp add: timespec_sub_whole_seconds)
next
  show "timespec_sub \<lparr>tv_sec = 5, tv_nsec = 100\<rparr> \<lparr>tv_sec = 6, tv_nsec = 50\<rparr>
      = \<lparr>tv_sec = 0, tv_nsec = 999999950\<rparr>"
    by (simp add: timespec_sub_def Let_def NSEC_PER_SEC_eq)
next
  show "timespec_sub \<lparr>tv_sec = 5, tv_nsec = 100\<rparr> \<lparr>tv_sec = 6, tv_nsec = 50\<rparr>
      \<noteq> \<lparr>tv_sec = 1, tv_nsec = - 50\<rparr>"
    by (simp add: timespec_sub_def Let_def NSEC_PER_SEC_eq)
qed

theorem timespec_sub_borrow_witness:
  "tv_nsec \<lparr>tv_sec = 3, tv_nsec = 0\<rparr> < tv_nsec \<lparr>tv_sec = 1, tv_nsec = 999999999\<rparr> \<and>
   normalized \<lparr>tv_sec = 1, tv_nsec = 999999999\<rparr> \<and> normalized \<lparr>tv_sec = 3, tv_nsec = 0\<rparr> \<and>
   timespec_sub \<lparr>tv_sec = 1, tv_nsec = 999999999\<rparr> \<lparr>tv_sec = 3, tv_nsec = 0\<rparr>
     = \<lparr>tv_sec = 1, tv_nsec = 1\<rparr> \<and>
   c_div (timespec_nsec \<lparr>tv_sec = 3, tv_nsec = 0\<rparr>
          - timespec_nsec \<lparr>tv_sec = 1, tv_nsec = 999999999\<rparr>) NSEC_PER_SEC = 1 \<and>
   tv_nsec \<lparr>tv_sec = 5, tv_nsec = 50\<rparr> < tv_nsec \<lparr>tv_sec = 5, tv_nsec = 100\<rparr> \<and>
   normalized \<lparr>tv_sec = 5, tv_nsec = 100\<rparr> \<and> normalized \<lparr>tv_sec = 5, tv_nsec = 50\<rparr> \<and>
   timespec_sub \<lparr>tv_sec = 5, tv_nsec = 100\<rparr> \<lparr>tv_sec = 5, tv_nsec = 50\<rparr>
     = \<lparr>tv_sec = 0, tv_nsec = - 50\<rparr> \<and>
   c_div (timespec_nsec \<lparr>tv_sec = 5, tv_nsec = 50\<rparr>
          - timespec_nsec \<lparr>tv_sec = 5, tv_nsec = 100\<rparr>) NSEC_PER_SEC = 0"
  using timespec_sub_borrow
    [where ?t1.0 = "\<lparr>tv_sec = 1, tv_nsec = 999999999\<rparr>"
       and ?t2.0 = "\<lparr>tv_sec = 3, tv_nsec = 0\<rparr>"]
    timespec_sub_borrow
    [where ?t1.0 = "\<lparr>tv_sec = 5, tv_nsec = 100\<rparr>"
       and ?t2.0 = "\<lparr>tv_sec = 5, tv_nsec = 50\<rparr>"]
  by (simp add: normalized_def NSEC_PER_SEC_eq timespec_nsec_def c_div_def)

text \<open>
  The borrow does not follow from the nanosecond fields alone. From \<open>{5 s, 100 ns}\<close>
  to \<open>{5 s, 50 ns}\<close> the subtrahend has the larger nanosecond field, the seconds
  fields are equal, neither test of \<open>timespec_sub\<close> fires, and the result is the
  field-wise difference \<open>{0 s, -50 ns}\<close>, not the borrowed \<open>{-1 s, 999999950 ns}\<close>.
\<close>

theorem timespec_sub_borrow_counterexample:
  "tv_nsec \<lparr>tv_sec = 5, tv_nsec = 50\<rparr> < tv_nsec \<lparr>tv_sec = 5, tv_nsec = 100\<rparr> \<and>
   timespec_sub \<lparr>tv_sec = 5, tv_nsec = 100\<rparr> \<lparr>tv_sec = 5, tv_nsec = 50\<rparr>
     = \<lparr>tv_sec = 5 - 5, tv_nsec = 50 - 100\<rparr> \<and>
   timespec_sub \<lparr>tv_sec = 5, tv_nsec = 100\<rparr> \<lparr>tv_sec = 5, tv_nsec = 50\<rparr>
     \<noteq> \<lparr>tv_sec = 5 - 5 - 1, tv_nsec = 50 - 100 + NSEC_PER_SEC\<rparr>"
  by (simp add: timespec_sub_def Let_def NSEC_PER_SEC_eq)


subsection \<open>Unit conversion\<close>

lemma c_div_nonneg: "0 \<le> a \<Longrightarrow> 0 < b \<Longrightarrow> c_div a b = a div b"
  by (cases "a = 0") (simp_all add: c_div_def)

text \<open>
  Claim C9. For every timestamp whose two fields are non-negative, \<open>timespec_msec\<close>
  equals \<open>timespec_nsec\<close> divided by \<open>1000000\<close> with C's truncating division.
\<close>

theorem timespec_msec_nsec:
  assumes "0 \<le> tv_sec t" and "0 \<le> tv_nsec t"
  shows "timespec_msec t = c_div (timespec_nsec t) 1000000"
proof -
  have total: "0 \<le> timespec_nsec t"
    using assms by (simp add: timespec_nsec_def NSEC_PER_SEC_eq)
  have split: "timespec_nsec t = tv_nsec t + (tv_sec t * 1000) * 1000000"
    by (simp add: timespec_nsec_def NSEC_PER_SEC_eq)
  have "timespec_nsec t div 1000000 = tv_sec t * 1000 + tv_nsec t div 1000000"
    unfolding split by (rule div_mult_self1) simp
  with assms total show ?thesis
    by (simp add: timespec_msec_def c_div_nonneg MSEC_PER_SEC_def USEC_PER_SEC_def)
qed

theorem timespec_msec_nsec_witness:
  "0 \<le> tv_sec \<lparr>tv_sec = 2, tv_nsec = 345678901\<rparr> \<and>
   0 \<le> tv_nsec \<lparr>tv_sec = 2, tv_nsec = 345678901\<rparr> \<and>
   timespec_msec \<lparr>tv_sec = 2, tv_nsec = 345678901\<rparr> = 2345 \<and>
   c_div (timespec_nsec \<lparr>tv_sec = 2, tv_nsec = 345678901\<rparr>) 1000000 = 2345"
  using timespec_msec_nsec [of "\<lparr>tv_sec = 2, tv_nsec = 345678901\<rparr>"]
  by (simp add: timespec_msec_def c_div_def MSEC_PER_SEC_def USEC_PER_SEC_def)

subsection \<open>Stopwatch operations\<close>

text \<open>
  Claim C8. For every stopwatch, \<open>ctimer_reset\<close> sets \<open>elapsed\<close> to the zero timestamp,
  whose total nanoseconds are \<open>0\<close>, and leaves \<open>tic\<close> and \<open>toc\<close> as they were.
\<close>

theorem ctimer_reset_frame:
  fixes t :: ctimer_t
  shows "elapsed (ctimer_reset t) = \<lparr>tv_sec = 0, tv_nsec = 0\<rparr> \<and>
         timespec_nsec (elapsed (ctimer_reset t)) = 0 \<and>
         tic (ctimer_reset t) = tic t \<and> toc (ctimer_reset t) = toc t"
  by (simp add: ctimer_reset_def timespec_nsec_def)

text \<open>
  Claim C10. \<open>ctimer_measure\<close> is idempotent: measuring twice leaves the stopwatch
  in the state that measuring once does. It computes \<open>elapsed\<close> from \<open>tic\<close> and \<open>toc\<close>
  alone, whatever \<open>elapsed\<close> held before, and changes no other field.
\<close>

theorem ctimer_measure_idem:
  fixes t :: ctimer_t
  shows "ctimer_measure (ctimer_measure t) = ctimer_measure t \<and>
         ctimer_measure (t\<lparr>elapsed := e\<rparr>) = ctimer_measure t \<and>
         elapsed (ctimer_measure t) = timespec_sub (tic t) (toc t) \<and>
         tic (ctimer_measure t) = tic t \<and> toc (ctimer_measure t) = toc t"
  by (simp add: ctimer_measure_def)

text \<open>
  Claim C4. With \<open>CTIMER_MEASURE_ON_STOP\<close> defined, \<open>ctimer_stop\<close> leaves, for every
  stopwatch and every clock sample, exactly the state that \<open>ctimer_stop\<close> without the
  macro followed by \<open>ctimer_measure\<close> leaves. In particular, after start and stop
  alone the \<open>elapsed\<close> field is the one an explicit measure would have stored, namely
  \<open>timespec_sub\<close> of the recorded \<open>tic\<close> and \<open>toc\<close>.
\<close>

theorem ctimer_stop_measure_on_stop:
  fixes s :: "ctimer_t \<times> nat"
  shows "ctimer_stop True clk s = apfst ctimer_measure (ctimer_stop False clk s) \<and>
    (case ctimer_stop True clk (ctimer_start clk s) of (t', k') \<Rightarrow>
       elapsed t' =
         elapsed (ctimer_measure (fst (ctimer_stop False clk (ctimer_start clk s)))) \<and>
       elapsed t' = timespec_sub (tic t') (toc t'))"
  by (cases s)
    (simp add: ctimer_stop_def ctimer_start_def clock_gettime_def ctimer_measure_def)

subsection \<open>The multi-lap loop\<close>

text \<open>
  Without measure-on-stop, one iteration reads the clock twice, stores the two
  samples in \<open>tic\<close> and \<open>toc\<close>, and adds their difference to \<open>elapsed\<close>.
\<close>

lemma lap_iteration_False:
  "lap_iteration False clk (t, k) =
     (\<lparr>tic = clk k, toc = clk (Suc k),
       elapsed = timespec_add (elapsed t) (timespec_sub (clk k) (clk (Suc k)))\<rparr>,
      Suc (Suc k))"
  by (simp add: lap_iteration_def ctimer_stop_def ctimer_start_def clock_gettime_def
      ctimer_lap_def Let_def)

lemma ctimer_laps_reads:
  "snd (ctimer_laps False clk n (t, k)) = k + 2 * n"
proof (induction n)
  case 0
  show ?case by simp
next
  case (Suc n)
  obtain t' k' where st: "ctimer_laps False clk n (t, k) = (t', k')"
    by (cases "ctimer_laps False clk n (t, k)")
  with Suc show ?case
    by (simp add: lap_iteration_False)
qed

lemma ctimer_laps_elapsed:
  "timespec_nsec (elapsed (fst (ctimer_laps False clk n (t, k)))) =
     timespec_nsec (elapsed t) +
     (\<Sum>i<n. timespec_nsec (clk (k + 2 * i + 1)) - timespec_nsec (clk (k + 2 * i)))"
proof (induction n)
  case 0
  show ?case by simp
next
  case (Suc n)
  obtain t' k' where st: "ctimer_laps False clk n (t, k) = (t', k')"
    by (cases "ctimer_laps False clk n (t, k)")
  have k': "k' = k + 2 * n"
    using ctimer_laps_reads [of clk n t k] st by simp
  from Suc st k' show ?case
    by (simp add: lap_iteration_False timespec_nsec_add timespec_nsec_sub)
qed

lemma ctimer_laps_last:
  "tic (fst (ctimer_laps False clk (Suc n) (t, k))) = clk (k + 2 * n) \<and>
   toc (fst (ctimer_laps False clk (Suc n) (t, k))) = clk (k + 2 * n + 1)"
proof -
  obtain t' k' where st: "ctimer_laps False clk n (t, k) = (t', k')"
    by (cases "ctimer_laps False clk n (t, k)")
  have k': "k' = k + 2 * n"
    using ctimer_laps_reads [of clk n t k] st by simp
  from st k' show ?thesis
    by (simp add: lap_iteration_False)
qed

lemma sample_clock_lap:
  "timespec_nsec (sample_clock (Suc (2 * i))) - timespec_nsec (sample_clock (2 * i))
     = 200000000"
  by (simp add: sample_clock_def timespec_nsec_def NSEC_PER_SEC_eq)

text \<open>
  Claim C2. Measure-on-stop is disabled and the clock is an input trace; the loop
  starts after \<open>k\<close> earlier reads, so that iteration \<open>i\<close> (counted from \<open>0\<close>) records the
  sample \<open>clk (k + 2 * i)\<close> in \<open>tic\<close> and \<open>clk (k + 2 * i + 1)\<close> in \<open>toc\<close>. After
  \<open>ctimer_reset\<close> and \<open>n \<ge> 1\<close> iterations of start, stop and lap, the total nanoseconds
  of \<open>elapsed\<close> are the sum of the per-iteration differences, while \<open>tic\<close> and \<open>toc\<close>
  hold exactly the samples of the last iteration. The samples need not be
  normalized for this.
\<close>

theorem ctimer_laps_accumulate:
  fixes t :: ctimer_t
  assumes "1 \<le> n"
  shows "(case ctimer_laps False clk n (ctimer_reset t, k) of (t', k') \<Rightarrow>
           timespec_nsec (elapsed t') =
             (\<Sum>i<n. timespec_nsec (clk (k + 2 * i + 1)) - timespec_nsec (clk (k + 2 * i))) \<and>
           tic t' = clk (k + 2 * (n - 1)) \<and>
           toc t' = clk (k + 2 * (n - 1) + 1))"
proof -
  from assms obtain m where n: "n = Suc m"
    by (cases n) simp_all
  have zero: "timespec_nsec (elapsed (ctimer_reset t)) = 0"
    by (simp add: ctimer_reset_def timespec_nsec_def)
  show ?thesis
    using ctimer_laps_elapsed [of clk n "ctimer_reset t" k]
      ctimer_laps_last [of clk m "ctimer_reset t" k] zero
    unfolding n by (simp add: case_prod_beta)
qed

theorem ctimer_laps_accumulate_witness:
  "(1::nat) \<le> 5 \<and>
   (case ctimer_laps False sample_clock 5 (ctimer_reset sample_timer, 0) of (t', k') \<Rightarrow>
      timespec_nsec (elapsed t') = 1000000000 \<and>
      tic t' = \<lparr>tv_sec = 18, tv_nsec = 900000000\<rparr> \<and>
      toc t' = \<lparr>tv_sec = 19, tv_nsec = 100000000\<rparr>)"
proof -
  have s: "sample_clock 8 = \<lparr>tv_sec = 18, tv_nsec = 900000000\<rparr>"
    and e: "sample_clock 9 = \<lparr>tv_sec = 19, tv_nsec = 100000000\<rparr>"
    by (simp_all add: sample_clock_def)
  have n: "(1::nat) \<le> 5" by simp
  from ctimer_laps_accumulate [OF n, where clk = sample_clock and t = sample_timer and k = 0]
    n s e
  show ?thesis
    by (simp add: sample_clock_lap case_prod_beta)
qed

end
